theory Spec2Isabelle
  imports Main "HOL-Library.Word"
begin

unbundle bit_operations_syntax

section \<open>JavaScript numbers and 32-bit operators\<close>

text \<open>
  The library is TypeScript. A \<open>number\<close> that holds an integer is modelled as an \<open>int\<close>;
  a \<open>bigint\<close> is an \<open>int\<close> as well. A number is an IEEE double, exact only below
  \<open>2^53\<close>: where the source's arithmetic on numbers can leave that range (the tag
  \<open>field * 8 + wireType\<close> of the writer, the sum \<open>high * 2^32 + low\<close> of the reader's
  \<open>Fixed64\<close>) the rounding to the nearest double is written out with
  \<open>round_to_double\<close> below. The bitwise operators of JavaScript on numbers first
  convert their operands to 32 bits (ToInt32, and ToUint32 for \<open>>>>\<close>); on a \<open>bigint\<close>
  they act on the unbounded two's complement value, as \<open>AND\<close>, \<open>OR\<close>, \<open>XOR\<close>,
  \<open>push_bit\<close> and \<open>drop_bit\<close> do on \<open>int\<close>.
\<close>

definition ToUint32 :: "int \<Rightarrow> int" where
  "ToUint32 x = x mod 2 ^ 32"

definition ToInt32 :: "int \<Rightarrow> int" where
  "ToInt32 x = (let y = x mod 2 ^ 32 in if y \<ge> 2 ^ 31 then y - 2 ^ 32 else y)"

text \<open>\<open>a & b\<close>, \<open>a | b\<close>, \<open>a ^ b\<close>, \<open>a << k\<close>, \<open>a >> k\<close> and \<open>a >>> k\<close> on numbers.\<close>

definition js_and :: "int \<Rightarrow> int \<Rightarrow> int" where
  "js_and a b = ToInt32 a AND ToInt32 b"

definition js_or :: "int \<Rightarrow> int \<Rightarrow> int" where
  "js_or a b = ToInt32 a OR ToInt32 b"

definition js_xor :: "int \<Rightarrow> int \<Rightarrow> int" where
  "js_xor a b = ToInt32 a XOR ToInt32 b"

definition js_shl :: "int \<Rightarrow> nat \<Rightarrow> int" where
  "js_shl a k = ToInt32 (ToInt32 a * 2 ^ (k mod 32))"

definition js_sar :: "int \<Rightarrow> nat \<Rightarrow> int" where
  "js_sar a k = ToInt32 a div 2 ^ (k mod 32)"

definition js_shr :: "int \<Rightarrow> nat \<Rightarrow> int" where
  "js_shr a k = ToUint32 a div 2 ^ (k mod 32)"

section \<open>Rounding to a double\<close>

text \<open>
  The number of binary digits of a positive integer, and the integer-valued double
  nearest to an integer: 53 significant bits, a tie going to the even significand. A
  result of \<open>2^1024\<close> or more stands for an overflow, which \<open>number_of\<close> turns into
  \<open>Infinity\<close>.
\<close>

function bit_length :: "int \<Rightarrow> nat" where
  "bit_length x = (if x \<le> 0 then 0 else Suc (bit_length (x div 2)))"
  by pat_completeness auto
termination
  by (relation "measure nat") auto

declare bit_length.simps [simp del]

definition round_to_double :: "int \<Rightarrow> int" where
  "round_to_double x =
     (let a = \<bar>x\<bar>; n = bit_length a in
      if n \<le> 53 then x
      else (let e = n - 53;
                q = a div 2 ^ e;
                r = a mod 2 ^ e;
                h = 2 ^ (e - 1);
                m = (if r > h \<or> (r = h \<and> odd q) then (q + 1) * 2 ^ e else q * 2 ^ e)
            in sgn x * m))"

text \<open>
  The value of an arithmetic expression on finite numbers that hold integers: finite, or
  \<open>Infinity\<close>. (The operands below are a field number of at least 1 and a finite wire
  type, so no sum overflows downwards.)
\<close>

datatype number = Finite int | PosInfinity

definition number_of :: "int \<Rightarrow> number" where
  "number_of x = (if round_to_double x \<ge> 2 ^ 1024 then PosInfinity else Finite (round_to_double x))"

text \<open>\<open>a * b\<close> for finite \<open>a\<close>, \<open>b\<close>, and \<open>a + b\<close> for a finite \<open>b\<close>.\<close>

definition number_times :: "int \<Rightarrow> int \<Rightarrow> number" where
  "number_times a b = number_of (a * b)"

definition number_plus :: "number \<Rightarrow> int \<Rightarrow> number" where
  "number_plus a b = (case a of PosInfinity \<Rightarrow> PosInfinity | Finite p \<Rightarrow> number_of (p + b))"

section \<open>Constants (constants.ts: enum WireType, enum FieldType, powers of two)\<close>

definition WireType_VARINT :: int where "WireType_VARINT = 0"
definition WireType_FIXED64 :: int where "WireType_FIXED64 = 1"
definition WireType_DELIMITED :: int where "WireType_DELIMITED = 2"
definition WireType_START_GROUP :: int where "WireType_START_GROUP = 3"
definition WireType_END_GROUP :: int where "WireType_END_GROUP = 4"
definition WireType_FIXED32 :: int where "WireType_FIXED32 = 5"

definition TWO_TO_31 :: int where "TWO_TO_31 = 2147483648"
definition TWO_TO_32 :: int where "TWO_TO_32 = 4294967296"
definition TWO_TO_52 :: int where "TWO_TO_52 = 4503599627370496"
definition TWO_TO_63 :: int where "TWO_TO_63 = 9223372036854775808"
definition TWO_TO_64 :: int where "TWO_TO_64 = 18446744073709551616"

datatype FieldType =
    FieldType_INVALID
  | FieldType_DOUBLE
  | FieldType_FLOAT
  | FieldType_INT64
  | FieldType_UINT64
  | FieldType_INT32
  | FieldType_FIXED64
  | FieldType_FIXED32
  | FieldType_BOOL
  | FieldType_STRING
  | FieldType_GROUP
  | FieldType_MESSAGE
  | FieldType_BYTES
  | FieldType_UINT32
  | FieldType_ENUM
  | FieldType_SFIXED32
  | FieldType_SFIXED64
  | FieldType_SINT32
  | FieldType_SINT64

text \<open>What the source throws. The messages differ; the kinds are these.\<close>

datatype error =
    AdvanceOutOfBounds
  | CursorOutOfBounds
  | Varint32TooLong
  | Overflow
  | InvalidWireType
  | TypeNever
  | TypeError
  | LengthTooLong
  | InvalidFieldType
  | InvalidFieldNumber
  | OutOfRange

section \<open>BinaryEncoder (encoder.ts)\<close>

text \<open>
  The encoder's only field is \<open>buffer: number[]\<close>. Its elements are JavaScript numbers,
  not octets: nothing in the class reduces a pushed value modulo 256.
\<close>

type_synonym buffer = "int list"

lemma js_shr7_less: "127 < v \<Longrightarrow> js_shr v 7 < v"
proof -
  assume v: "127 < v"
  have "v mod 2 ^ 32 \<le> v" using v by (simp add: zmod_le_nonneg_dividend)
  then have "v mod 2 ^ 32 div 128 \<le> v div 128" by (rule zdiv_mono1) simp
  moreover have "v div 128 < v" using v by (simp add: int_div_less_self)
  ultimately show ?thesis by (simp add: js_shr_def ToUint32_def)
qed

text \<open>\<open>UnsignedVarint32(value: number)\<close>: the \<open>while (value > 127)\<close> loop, then the last push.\<close>

function Encoder_UnsignedVarint32 :: "buffer \<Rightarrow> int \<Rightarrow> buffer" where
  "Encoder_UnsignedVarint32 buf v =
     (if v > 127
      then Encoder_UnsignedVarint32 (buf @ [js_or (js_and v 0x7f) 0x80]) (js_shr v 7)
      else buf @ [v])"
  by pat_completeness auto
termination
  by (relation "measure (\<lambda>(buf, v). nat v)") (auto simp: js_shr7_less)

declare Encoder_UnsignedVarint32.simps [simp del]

text \<open>
  \<open>Varint32(v: number)\<close>: for a negative \<open>v\<close> the \<open>for\<close> loop runs four times, each time
  pushing \<open>(v & 0x7f) | 0x80\<close> and shifting \<open>v\<close> with the signed \<open>>>\<close>; then \<open>v\<close>
  itself is pushed, and then the number 1.
\<close>

fun Varint32_loop :: "nat \<Rightarrow> buffer \<Rightarrow> int \<Rightarrow> buffer \<times> int" where
  "Varint32_loop 0 buf v = (buf, v)"
| "Varint32_loop (Suc n) buf v =
     Varint32_loop n (buf @ [js_or (js_and v 0x7f) 0x80]) (js_sar v 7)"

definition Encoder_Varint32 :: "buffer \<Rightarrow> int \<Rightarrow> buffer" where
  "Encoder_Varint32 buf v =
     (if v \<ge> 0 then Encoder_UnsignedVarint32 buf v
      else (case Varint32_loop 4 buf v of (buf', v') \<Rightarrow> buf' @ [v'] @ [1]))"

text \<open>\<open>UnsignedVarint(v: bigint)\<close> and \<open>Varint(v: bigint)\<close>: the same on unbounded integers.\<close>

function Encoder_UnsignedVarint :: "buffer \<Rightarrow> int \<Rightarrow> buffer" where
  "Encoder_UnsignedVarint buf v =
     (if v > 127
      then Encoder_UnsignedVarint (buf @ [(v AND 0x7f) OR 0x80]) (drop_bit 7 v)
      else buf @ [v])"
  by pat_completeness auto
termination
  by (relation "measure (\<lambda>(buf, v). nat v)") (auto simp: drop_bit_eq_div int_div_less_self)

declare Encoder_UnsignedVarint.simps [simp del]

fun Varint_loop :: "nat \<Rightarrow> buffer \<Rightarrow> int \<Rightarrow> buffer \<times> int" where
  "Varint_loop 0 buf v = (buf, v)"
| "Varint_loop (Suc n) buf v =
     Varint_loop n (buf @ [(v AND 0x7f) OR 0x80]) (drop_bit 7 v)"

definition Encoder_Varint :: "buffer \<Rightarrow> int \<Rightarrow> buffer" where
  "Encoder_Varint buf v =
     (if v \<ge> 0 then Encoder_UnsignedVarint buf v
      else (case Varint_loop 9 buf v of (buf', v') \<Rightarrow> buf' @ [1]))"

definition Encoder_Zigzag32 :: "buffer \<Rightarrow> int \<Rightarrow> buffer" where
  "Encoder_Zigzag32 buf v =
     Encoder_UnsignedVarint32 buf (js_shr (js_xor (js_shl v 1) (js_sar v 31)) 0)"

definition Encoder_Zigzag64 :: "buffer \<Rightarrow> int \<Rightarrow> buffer" where
  "Encoder_Zigzag64 buf x = Encoder_Varint buf (push_bit 1 x XOR drop_bit 63 x)"

definition Encoder_Fixed32 :: "buffer \<Rightarrow> int \<Rightarrow> buffer" where
  "Encoder_Fixed32 buf v =
     buf @ [js_and (js_shr v 0) 0xff] @ [js_and (js_shr v 8) 0xff]
         @ [js_and (js_shr v 16) 0xff] @ [js_and (js_shr v 24) 0xff]"

definition Encoder_Bool :: "buffer \<Rightarrow> bool \<Rightarrow> buffer" where
  "Encoder_Bool buf b = buf @ [if b then 1 else 0]"

definition Encoder_Enum :: "buffer \<Rightarrow> int \<Rightarrow> buffer" where
  "Encoder_Enum buf v = Encoder_Varint32 buf v"

text \<open>
  \<open>Bytes(bytes: Uint8Array) { this.buffer.push.apply(bytes); }\<close>.
  \<open>Function.prototype.apply\<close> takes the receiver first and the argument list second:
  the call runs \<open>Array.prototype.push\<close> with \<open>this = bytes\<close> and no arguments. Nothing is
  pushed onto \<open>this.buffer\<close>; \<open>push\<close> then stores the unchanged length into
  \<open>bytes.length\<close>, which a typed array exposes through a getter only, and that store
  raises a TypeError. The result carries the encoder's buffer as the call leaves it,
  together with the exception.
\<close>

definition Encoder_Bytes :: "buffer \<Rightarrow> 8 word list \<Rightarrow> buffer \<times> error option" where
  "Encoder_Bytes buf bytes = (buf, Some TypeError)"

section \<open>BinaryWriter (writer.ts)\<close>

text \<open>
  The writer's only field is its encoder, so a writer state is the encoder's buffer.
  An operation that can \<open>throw\<close> returns \<open>Inl\<close> of the error.
\<close>

definition Writer_appendUint8Array :: "buffer \<Rightarrow> 8 word list \<Rightarrow> buffer" where
  "Writer_appendUint8Array buf arr = buf @ map uint arr"

text \<open>
  \<open>Tag(field, wireType)\<close>: \<open>const x = field * 8 + wireType\<close> is arithmetic on numbers,
  and \<open>x\<close> goes to the encoder's \<open>UnsignedVarint32\<close>. When \<open>x\<close> is \<open>Infinity\<close> the
  loop test \<open>value > 127\<close> holds, \<open>value & 0x7f\<close> and \<open>value >>> 7\<close> read it as 0, and the
  loop goes on with the number 0.
\<close>

definition Encoder_UnsignedVarint32_number :: "buffer \<Rightarrow> number \<Rightarrow> buffer" where
  "Encoder_UnsignedVarint32_number buf x =
     (case x of
        Finite v \<Rightarrow> Encoder_UnsignedVarint32 buf v
      | PosInfinity \<Rightarrow>
          Encoder_UnsignedVarint32 (buf @ [js_or (js_and 0 0x7f) 0x80]) (js_shr 0 7))"

definition Writer_Tag :: "buffer \<Rightarrow> int \<Rightarrow> int \<Rightarrow> error + buffer" where
  "Writer_Tag buf field wireType =
     (if field \<ge> 1 then
        (let x = number_plus (number_times field 8) wireType
         in Inr (Encoder_UnsignedVarint32_number buf x))
      else Inl InvalidFieldNumber)"

definition Writer_beginDelimited :: "buffer \<Rightarrow> int \<Rightarrow> error + (buffer \<times> int)" where
  "Writer_beginDelimited buf field =
     (case Writer_Tag buf field WireType_DELIMITED of
        Inl e \<Rightarrow> Inl e
      | Inr buf' \<Rightarrow> Inr (buf', int (length buf')))"

text \<open>\<open>Array.prototype.splice(start, 0, ...items)\<close>: a negative start counts from the end.\<close>

definition splice_insert :: "buffer \<Rightarrow> int \<Rightarrow> int list \<Rightarrow> buffer" where
  "splice_insert buf start items =
     (let len = int (length buf);
          s = (if start < 0 then max (len + start) 0 else min start len)
      in take (nat s) buf @ items @ drop (nat s) buf)"

text \<open>
  The loop of \<open>endDelimited\<close> that fills \<open>tmp\<close>. When it stops, the source splices
  \<open>tmp\<close> and returns: the remaining \<open>messageLength\<close> is not pushed.
\<close>

function endDelimited_loop :: "int list \<Rightarrow> int \<Rightarrow> int list" where
  "endDelimited_loop tmp messageLength =
     (if messageLength > 127
      then endDelimited_loop (tmp @ [js_or (js_and messageLength 0x7f) 0x80])
             (js_shr messageLength 7)
      else tmp)"
  by pat_completeness auto
termination
  by (relation "measure (\<lambda>(tmp, v). nat v)") (auto simp: js_shr7_less)

declare endDelimited_loop.simps [simp del]

definition Writer_endDelimited :: "buffer \<Rightarrow> int \<Rightarrow> buffer" where
  "Writer_endDelimited buf bookmark =
     (let messageLength = int (length buf) - bookmark in
      if messageLength \<ge> 0 then
        (if messageLength > 127
         then splice_insert buf bookmark (endDelimited_loop [] messageLength)
         else splice_insert buf bookmark [messageLength])
      else buf)"

definition Writer_Int64 :: "buffer \<Rightarrow> int \<Rightarrow> int \<Rightarrow> error + buffer" where
  "Writer_Int64 buf field v =
     (if v \<ge> - TWO_TO_63 \<and> v < TWO_TO_63 then
        (case Writer_Tag buf field WireType_VARINT of
           Inl e \<Rightarrow> Inl e
         | Inr buf' \<Rightarrow> Inr (Encoder_Varint buf' v))
      else Inl OutOfRange)"

definition Writer_Sint32 :: "buffer \<Rightarrow> int \<Rightarrow> int \<Rightarrow> error + buffer" where
  "Writer_Sint32 buf field v =
     (if v \<ge> - TWO_TO_31 \<and> v < TWO_TO_31 then
        (case Writer_Tag buf field WireType_VARINT of
           Inl e \<Rightarrow> Inl e
         | Inr buf' \<Rightarrow> Inr (Encoder_Zigzag32 buf' v))
      else Inl OutOfRange)"

text \<open>\<open>Sint64\<close> has the same test as its siblings but no \<open>else\<close> branch.\<close>

definition Writer_Sint64 :: "buffer \<Rightarrow> int \<Rightarrow> int \<Rightarrow> error + buffer" where
  "Writer_Sint64 buf field v =
     (if v \<ge> - TWO_TO_63 \<and> v < TWO_TO_63 then
        (case Writer_Tag buf field WireType_VARINT of
           Inl e \<Rightarrow> Inl e
         | Inr buf' \<Rightarrow> Inr (Encoder_Zigzag64 buf' v))
      else Inr buf)"

section \<open>BinaryReader (reader.ts)\<close>

text \<open>
  A JavaScript number that may be \<open>NaN\<close>: the reader's \<open>length\<close> field and the local
  \<open>l\<close> of \<open>Header\<close> are sums that involve \<open>this.bytes[i]\<close>, which is \<open>undefined\<close>
  outside the array.
\<close>

datatype jsnum = Num int | NaN

text \<open>
  The fields of the class. \<open>bytes\<close> is a \<open>Uint8Array\<close>; \<open>end\<close> and \<open>cursor\<close> are
  integers (a length read from the input can be negative, so they are not naturals);
  \<open>nextField\<close> and \<open>nextWireType\<close> are \<open>undefined\<close> until a tag is read, and hold
  whatever number the tag gives. An operation returns \<open>Inr\<close> of its value and the
  state it leaves, or \<open>Inl\<close> of the error it throws; the state a throwing operation
  leaves behind is not kept.
\<close>

record BinaryReader =
  r_bytes :: "8 word list"
  r_end :: int
  r_cursor :: int
  r_nextField :: "int option"
  r_nextWireType :: "int option"
  r_length :: jsnum

definition new_BinaryReader :: "8 word list \<Rightarrow> BinaryReader" where
  "new_BinaryReader src =
     \<lparr>r_bytes = src, r_end = int (length src), r_cursor = 0,
      r_nextField = None, r_nextWireType = None, r_length = Num 0\<rparr>"

text \<open>\<open>this.bytes[i]\<close>: \<open>None\<close> is \<open>undefined\<close>, the value of an index outside the array.\<close>

definition byte_at :: "BinaryReader \<Rightarrow> int \<Rightarrow> int option" where
  "byte_at r i =
     (if 0 \<le> i \<and> i < int (length (r_bytes r)) then Some (uint (r_bytes r ! nat i)) else None)"

text \<open>
  \<open>undefined\<close> as an operand: a bitwise operator reads it as 0, and every comparison
  with a number is false.
\<close>

definition num0 :: "int option \<Rightarrow> int" where
  "num0 y = (case y of None \<Rightarrow> 0 | Some v \<Rightarrow> v)"

definition lt_num :: "int option \<Rightarrow> int \<Rightarrow> bool" where
  "lt_num y c = (case y of None \<Rightarrow> False | Some v \<Rightarrow> v < c)"

definition ge_num :: "int option \<Rightarrow> int \<Rightarrow> bool" where
  "ge_num y c = (case y of None \<Rightarrow> False | Some v \<Rightarrow> v \<ge> c)"

definition bindE :: "error + 'a \<Rightarrow> ('a \<Rightarrow> error + 'b) \<Rightarrow> error + 'b" where
  "bindE m f = (case m of Inl e \<Rightarrow> Inl e | Inr x \<Rightarrow> f x)"

definition advance :: "BinaryReader \<Rightarrow> int \<Rightarrow> error + BinaryReader" where
  "advance r count =
     (let r' = r\<lparr>r_cursor := r_cursor r + count\<rparr>
      in if r_cursor r' > r_end r' then Inl AdvanceOutOfBounds else Inr r')"

text \<open>\<open>this.advance(n); return x;\<close>\<close>

definition advance_return :: "BinaryReader \<Rightarrow> int \<Rightarrow> 'a \<Rightarrow> error + ('a \<times> BinaryReader)" where
  "advance_return r n x = bindE (advance r n) (\<lambda>r'. Inr (x, r'))"

text \<open>
  \<open>Header\<close>. The loop body \<open>l = (l << 8) + this.bytes[this.cursor]; this.advance(1)\<close>:
  the shift is a 32-bit operation (of \<open>NaN\<close> it gives 0), the sum is a sum of numbers.
\<close>

definition shl8_num :: "jsnum \<Rightarrow> int" where
  "shl8_num l = (case l of NaN \<Rightarrow> js_shl 0 8 | Num x \<Rightarrow> js_shl x 8)"

definition add_byte :: "int \<Rightarrow> int option \<Rightarrow> jsnum" where
  "add_byte x y = (case y of None \<Rightarrow> NaN | Some b \<Rightarrow> Num (x + b))"

definition add_num :: "jsnum \<Rightarrow> jsnum \<Rightarrow> jsnum" where
  "add_num a b = (case (a, b) of (Num x, Num y) \<Rightarrow> Num (x + y) | _ \<Rightarrow> NaN)"

fun Header_loop :: "nat \<Rightarrow> jsnum \<Rightarrow> BinaryReader \<Rightarrow> error + (jsnum \<times> BinaryReader)" where
  "Header_loop 0 l r = Inr (l, r)"
| "Header_loop (Suc n) l r =
     (let l' = add_byte (shl8_num l) (byte_at r (r_cursor r))
      in bindE (advance r 1) (\<lambda>r'. Header_loop n l' r'))"

definition Reader_Header :: "BinaryReader \<Rightarrow> error + (bool \<times> BinaryReader)" where
  "Reader_Header r =
     (if r_cursor r \<ge> r_end r then Inr (False, r)
      else bindE (Header_loop 5 (Num 0) r) (\<lambda>(l, r').
        if l = Num 0 then Inr (False, r')
        else Inr (True, r'\<lparr>r_length := add_num (r_length r') (add_num l (Num 5))\<rparr>)))"

text \<open>
  \<open>Varint32\<close>, as unrolled in the source. After the fifth byte with its high bit set
  comes \<open>this.advance(5)\<close> and then the chain
  \<open>this.bytes[this.cursor++] >= 128 && \<dots>\<close> of five operands: each operand that is
  evaluated moves the cursor, and the chain stops at the first false one.
\<close>

fun skip_continuation :: "nat \<Rightarrow> BinaryReader \<Rightarrow> bool \<times> BinaryReader" where
  "skip_continuation 0 r = (True, r)"
| "skip_continuation (Suc n) r =
     (let y = byte_at r (r_cursor r);
          r' = r\<lparr>r_cursor := r_cursor r + 1\<rparr>
      in if ge_num y 128 then skip_continuation n r' else (False, r'))"

definition Reader_Varint32 :: "BinaryReader \<Rightarrow> error + (int \<times> BinaryReader)" where
  "Reader_Varint32 r =
     (let y = byte_at r (r_cursor r);
          x = js_and (num0 y) 0x7f in
      if lt_num y 128 then advance_return r 1 x else
      let y = byte_at r (r_cursor r + 1);
          x = js_or x (js_shl (js_and (num0 y) 0x7f) 7) in
      if lt_num y 128 then advance_return r 2 x else
      let y = byte_at r (r_cursor r + 2);
          x = js_or x (js_shl (js_and (num0 y) 0x7f) 14) in
      if lt_num y 128 then advance_return r 3 x else
      let y = byte_at r (r_cursor r + 3);
          x = js_or x (js_shl (js_and (num0 y) 0x7f) 21) in
      if lt_num y 128 then advance_return r 4 x else
      let y = byte_at r (r_cursor r + 4);
          x = js_or x (js_shl (js_and (num0 y) 0x0f) 28) in
      if lt_num y 128 then advance_return r 5 (js_shr x 0) else
      bindE (advance r 5) (\<lambda>r1.
        case skip_continuation 5 r1 of (all_set, r2) \<Rightarrow>
          if all_set then Inl Varint32TooLong
          else if r_cursor r2 > r_end r2 then Inl CursorOutOfBounds
          else Inr (x, r2)))"

text \<open>\<open>sign(v, s)\<close>: \<open>BigInt.asIntN(64, v)\<close> or \<open>BigInt.asUintN(64, v)\<close>.\<close>

definition sign :: "int \<Rightarrow> bool \<Rightarrow> int" where
  "sign v s =
     (if s then (let m = v mod 2 ^ 64 in if m \<ge> 2 ^ 63 then m - 2 ^ 64 else m)
      else v mod 2 ^ 64)"

text \<open>\<open>BigInt(this.bytes[i])\<close>: \<open>BigInt(undefined)\<close> raises a TypeError.\<close>

definition BigInt_byte :: "BinaryReader \<Rightarrow> int \<Rightarrow> error + int" where
  "BigInt_byte r i = (case byte_at r i of None \<Rightarrow> Inl TypeError | Some b \<Rightarrow> Inr b)"

text \<open>\<open>Varint(s)\<close>, the 64-bit read, as unrolled in the source (ten bytes).\<close>

definition Reader_Varint :: "bool \<Rightarrow> BinaryReader \<Rightarrow> error + (int \<times> BinaryReader)" where
  "Reader_Varint s r =
     bindE (BigInt_byte r (r_cursor r)) (\<lambda>v.
     if v < 0x80 then advance_return r 1 (sign v s) else
     let v = v - 0x80 in
     bindE (BigInt_byte r (r_cursor r + 1)) (\<lambda>y.
     let v = v OR push_bit 7 y in
     if y < 0x80 then advance_return r 2 (sign v s) else
     let v = v - push_bit 7 0x80 in
     bindE (BigInt_byte r (r_cursor r + 2)) (\<lambda>y.
     let v = v OR push_bit 14 y in
     if y < 0x80 then advance_return r 3 (sign v s) else
     let v = v - push_bit 14 0x80 in
     bindE (BigInt_byte r (r_cursor r + 3)) (\<lambda>y.
     let v = v OR push_bit 21 y in
     if y < 0x80 then advance_return r 4 (sign v s) else
     let v = v - push_bit 21 0x80 in
     bindE (BigInt_byte r (r_cursor r + 4)) (\<lambda>y.
     let v = v OR push_bit 28 y in
     if y < 0x80 then advance_return r 5 (sign v s) else
     let v = v - push_bit 28 0x80 in
     bindE (BigInt_byte r (r_cursor r + 5)) (\<lambda>y.
     let v = v OR push_bit 35 y in
     if y < 0x80 then advance_return r 6 (sign v s) else
     let v = v - push_bit 35 0x80 in
     bindE (BigInt_byte r (r_cursor r + 6)) (\<lambda>y.
     let v = v OR push_bit 42 y in
     if y < 0x80 then advance_return r 7 (sign v s) else
     let v = v - push_bit 42 0x80 in
     bindE (BigInt_byte r (r_cursor r + 7)) (\<lambda>y.
     let v = v OR push_bit 49 y in
     if y < 0x80 then advance_return r 8 (sign v s) else
     let v = v - push_bit 49 0x80 in
     bindE (BigInt_byte r (r_cursor r + 8)) (\<lambda>y.
     let v = v OR push_bit 56 y in
     if y < 0x80 then advance_return r 9 (sign v s) else
     let v = v - push_bit 56 0x80 in
     bindE (BigInt_byte r (r_cursor r + 9)) (\<lambda>y.
     let v = v OR push_bit 63 y in
     if y < 2 then advance_return r 10 (sign v s) else
     Inl Overflow))))))))))"

text \<open>The typed reads: each tests \<open>this.nextWireType\<close> and throws when it does not fit.\<close>

definition Reader_Sint32 :: "BinaryReader \<Rightarrow> error + (int \<times> BinaryReader)" where
  "Reader_Sint32 r =
     (if r_nextWireType r = Some WireType_VARINT
      then bindE (Reader_Varint32 r) (\<lambda>(z, r').
             Inr (js_xor (js_shr z 1) (- (js_and z 1)), r'))
      else Inl TypeNever)"

definition Reader_Sint64 :: "BinaryReader \<Rightarrow> error + (int \<times> BinaryReader)" where
  "Reader_Sint64 r =
     (if r_nextWireType r = Some WireType_VARINT
      then bindE (Reader_Varint False r) (\<lambda>(z, r').
             Inr (drop_bit 1 z XOR - (drop_bit 63 (push_bit 63 z) AND 1), r'))
      else Inl TypeNever)"

text \<open>The four bytes at a position, little-endian, combined with \<open>|\<close> and \<open><<\<close>.\<close>

definition read_le32 :: "BinaryReader \<Rightarrow> int \<Rightarrow> int" where
  "read_le32 r i =
     js_or (js_or (js_or (js_shl (num0 (byte_at r i)) 0)
                         (js_shl (num0 (byte_at r (i + 1))) 8))
                  (js_shl (num0 (byte_at r (i + 2))) 16))
           (js_shl (num0 (byte_at r (i + 3))) 24)"

definition Reader_Fixed32 :: "BinaryReader \<Rightarrow> error + (int \<times> BinaryReader)" where
  "Reader_Fixed32 r =
     (if r_nextWireType r = Some WireType_FIXED32
      then advance_return r 4 (read_le32 r (r_cursor r))
      else Inl TypeNever)"

text \<open>
  \<open>Fixed64\<close> returns \<open>BigInt(high * TWO_TO_32 + (low >>> 0))\<close>: the sum is a sum of
  numbers, rounded to a double before it becomes a \<open>bigint\<close> (\<open>high\<close> is a signed 32-bit
  value, so the product is exact).
\<close>

definition Reader_Fixed64 :: "BinaryReader \<Rightarrow> error + (int \<times> BinaryReader)" where
  "Reader_Fixed64 r =
     (if r_nextWireType r = Some WireType_FIXED64
      then (let low = read_le32 r (r_cursor r) in
            bindE (advance r 4) (\<lambda>r1.
            let high = read_le32 r1 (r_cursor r1) in
            bindE (advance r1 4) (\<lambda>r2.
            Inr (round_to_double (high * TWO_TO_32 + js_shr low 0), r2))))
      else Inl TypeNever)"

text \<open>
  \<open>Float\<close> and \<open>Double\<close> end in floating-point arithmetic, which is not modelled: the
  result records the branch taken and the integers (sign, exponent, mantissa) the
  source computes the number from.
\<close>

datatype float_result =
    Float_NaN
  | Float_Infinity int
  | Float_Denormal int int
  | Float_Normal int int int

definition Reader_Float :: "BinaryReader \<Rightarrow> error + (float_result \<times> BinaryReader)" where
  "Reader_Float r =
     (if r_nextWireType r = Some WireType_FIXED32
      then bindE (Reader_Fixed32 r) (\<lambda>(flt, r').
        let sgn = js_sar flt 31 * 2 + 1;
            exp = js_and (js_shr flt 23) 0xff;
            mant = js_and flt 0x7fffff in
        if exp = 0xff then (if mant \<noteq> 0 then Inr (Float_NaN, r') else Inr (Float_Infinity sgn, r'))
        else if exp = 0 then Inr (Float_Denormal sgn mant, r')
        else Inr (Float_Normal sgn exp mant, r'))
      else Inl TypeNever)"

definition Reader_Double :: "BinaryReader \<Rightarrow> error + (float_result \<times> BinaryReader)" where
  "Reader_Double r =
     (if r_nextWireType r = Some WireType_FIXED64
      then (let bitsLow = read_le32 r (r_cursor r) in
            bindE (advance r 4) (\<lambda>r1.
            let bitsHigh = read_le32 r1 (r_cursor r1) in
            bindE (advance r1 4) (\<lambda>r2.
            let sgn = js_sar bitsHigh 31 * 2 + 1;
                exp = js_and (js_shr bitsHigh 20) 0x7ff;
                mant = TWO_TO_32 * js_and bitsHigh 0xfffff + js_shr bitsLow 0 in
            if exp = 0x7ff then (if mant \<noteq> 0 then Inr (Float_NaN, r2) else Inr (Float_Infinity sgn, r2))
            else if exp = 0 then Inr (Float_Denormal sgn mant, r2)
            else Inr (Float_Normal sgn exp mant, r2))))
      else Inl TypeNever)"

text \<open>\<open>Bool\<close>: \<open>return !!this.bytes[this.cursor++]\<close>. The cursor moves with \<open>++\<close>, not with \<open>advance\<close>.\<close>

definition Reader_Bool :: "BinaryReader \<Rightarrow> error + (bool \<times> BinaryReader)" where
  "Reader_Bool r =
     (if r_nextWireType r = Some WireType_VARINT
      then Inr (num0 (byte_at r (r_cursor r)) \<noteq> 0, r\<lparr>r_cursor := r_cursor r + 1\<rparr>)
      else Inl TypeNever)"

definition Reader_Enum :: "BinaryReader \<Rightarrow> error + (int \<times> BinaryReader)" where
  "Reader_Enum r =
     (if r_nextWireType r = Some WireType_VARINT then Reader_Varint32 r else Inl TypeNever)"

text \<open>
  \<open>NextField\<close>. The wire-type test ends in
  \<open>type == (WireType.START_GROUP || WireType.END_GROUP)\<close>; \<open>a || b\<close> is \<open>a\<close> when
  \<open>a\<close> is truthy (for a number: not zero) and \<open>b\<close> otherwise.
\<close>

definition js_oror :: "int \<Rightarrow> int \<Rightarrow> int" where
  "js_oror a b = (if a \<noteq> 0 then a else b)"

definition Reader_NextField :: "BinaryReader \<Rightarrow> error + (bool \<times> BinaryReader)" where
  "Reader_NextField r =
     (if r_cursor r \<ge> r_end r then Inr (False, r)
      else if Num (r_cursor r) = r_length r then Inr (False, r)
      else bindE (Reader_Varint32 r) (\<lambda>(tag, r').
        let field = js_sar tag 3;
            type = js_and tag 7 in
        if type \<noteq> WireType_VARINT \<and>
           type \<noteq> WireType_FIXED32 \<and>
           type \<noteq> WireType_FIXED64 \<and>
           type \<noteq> WireType_DELIMITED \<and>
           type = js_oror WireType_START_GROUP WireType_END_GROUP
        then Inl InvalidWireType
        else Inr (True, r'\<lparr>r_nextField := Some field, r_nextWireType := Some type\<rparr>)))"

text \<open>
  \<open>String\<close>. The loop runs on a local \<open>cursor\<close> up to the local \<open>end = this.cursor + l\<close>
  and collects UTF-16 code units; afterwards \<open>this.cursor = cursor\<close>, with no test
  against \<open>this.end\<close>. The result is the list of code units.
\<close>

function String_loop :: "BinaryReader \<Rightarrow> int \<Rightarrow> int \<Rightarrow> int list \<Rightarrow> int \<times> int list" where
  "String_loop r endp cursor codeUnits =
     (if cursor < endp then
        (let c = byte_at r cursor in
         if lt_num c 128 then
           String_loop r endp (cursor + 1) (codeUnits @ [num0 c])
         else if lt_num c 192 then
           String_loop r endp (cursor + 1) codeUnits
         else if lt_num c 224 then
           String_loop r endp (cursor + 2)
             (codeUnits @ [js_or (js_shl (js_and (num0 c) 31) 6)
                                 (js_and (num0 (byte_at r (cursor + 1))) 63)])
         else if lt_num c 240 then
           String_loop r endp (cursor + 3)
             (codeUnits @ [js_or (js_or (js_shl (js_and (num0 c) 15) 12)
                                        (js_shl (js_and (num0 (byte_at r (cursor + 1))) 63) 6))
                                 (js_and (num0 (byte_at r (cursor + 2))) 63)])
         else if lt_num c 248 then
           (let codepoint =
                  js_or (js_or (js_or (js_shl (js_and (num0 c) 7) 18)
                                      (js_shl (js_and (num0 (byte_at r (cursor + 1))) 63) 12))
                               (js_shl (js_and (num0 (byte_at r (cursor + 2))) 63) 6))
                        (js_and (num0 (byte_at r (cursor + 3))) 63)
                  - 0x10000
            in String_loop r endp (cursor + 4)
                 (codeUnits @ [js_and (js_sar codepoint 10) 1023 + 0xd800,
                               js_and codepoint 1023 + 0xdc00]))
         else String_loop r endp (cursor + 1) codeUnits)
      else (cursor, codeUnits))"
  by pat_completeness auto
termination
  by (relation "measure (\<lambda>(r, endp, cursor, codeUnits). nat (endp - cursor))") auto

declare String_loop.simps [simp del]

definition Reader_String :: "BinaryReader \<Rightarrow> error + (int list \<times> BinaryReader)" where
  "Reader_String r =
     (if r_nextWireType r = Some WireType_DELIMITED
      then bindE (Reader_Varint32 r) (\<lambda>(l, r').
        let endp = r_cursor r' + l in
        if l < 0 \<or> l > TWO_TO_52 then Inl LengthTooLong
        else (case String_loop r' endp (r_cursor r') [] of
                (cursor, codeUnits) \<Rightarrow> Inr (codeUnits, r'\<lparr>r_cursor := cursor\<rparr>)))
      else Inl TypeNever)"

text \<open>\<open>Uint8Array.prototype.subarray(begin, end)\<close>: relative indices, clamped to the array.\<close>

definition subarray :: "8 word list \<Rightarrow> int \<Rightarrow> int \<Rightarrow> 8 word list" where
  "subarray bs b e =
     (let len = int (length bs);
          b' = (if b < 0 then max (len + b) 0 else min b len);
          e' = (if e < 0 then max (len + e) 0 else min e len)
      in take (nat (e' - b')) (drop (nat b') bs))"

definition Reader_Bytes :: "BinaryReader \<Rightarrow> error + (8 word list \<times> BinaryReader)" where
  "Reader_Bytes r =
     (if r_nextWireType r = Some WireType_DELIMITED
      then bindE (Reader_Varint32 r) (\<lambda>(l, r').
        if l < 0 \<or> l > TWO_TO_52 then Inl LengthTooLong
        else advance_return r' l (subarray (r_bytes r') (r_cursor r') (r_cursor r' + l)))
      else Inl TypeNever)"

text \<open>
  \<open>Message(message)\<close>. The embedded message's \<open>deserializeBinaryFromReader\<close> is client
  code that works on this same reader: it is a parameter, a function from the reader's
  state to the state it leaves or to the error it throws.
\<close>

type_synonym deserializer = "BinaryReader \<Rightarrow> error + BinaryReader"

definition Reader_Message :: "deserializer \<Rightarrow> BinaryReader \<Rightarrow> error + BinaryReader" where
  "Reader_Message message r =
     (if r_nextWireType r = Some WireType_DELIMITED
      then (let oEnd = r_end r in
            bindE (Reader_Varint32 r) (\<lambda>(l, r1).
            let nEnd = r_cursor r1 + l in
            bindE (message (r1\<lparr>r_end := nEnd\<rparr>)) (\<lambda>r2.
            Inr (r2\<lparr>r_cursor := nEnd, r_end := oEnd\<rparr>))))
      else Inl TypeNever)"

text \<open>
  \<open>Map(kFT, vFT, msg)\<close>. The values a map entry can hold; \<open>JS_undefined\<close> is the
  second element of the result when the value type is MESSAGE and no \<open>msg\<close> is given.
\<close>

datatype jsvalue =
    JS_number int
  | JS_bigint int
  | JS_boolean bool
  | JS_string "int list"
  | JS_bytes "8 word list"
  | JS_float float_result
  | JS_message
  | JS_undefined

definition returning :: "('a \<Rightarrow> jsvalue) \<Rightarrow> error + ('a \<times> BinaryReader) \<Rightarrow> error + (jsvalue \<times> BinaryReader)" where
  "returning f m = bindE m (\<lambda>(x, r). Inr (f x, r))"

definition Map_key :: "FieldType \<Rightarrow> BinaryReader \<Rightarrow> error + (jsvalue \<times> BinaryReader)" where
  "Map_key kFT r =
     (case kFT of
        FieldType_INT64 \<Rightarrow> returning JS_bigint (Reader_Varint True r)
      | FieldType_UINT64 \<Rightarrow> returning JS_bigint (Reader_Varint False r)
      | FieldType_INT32 \<Rightarrow> returning JS_number (Reader_Varint32 r)
      | FieldType_UINT32 \<Rightarrow> returning JS_number (Reader_Varint32 r)
      | FieldType_FIXED64 \<Rightarrow>
          returning JS_bigint (Reader_Fixed64 (r\<lparr>r_nextWireType := Some WireType_FIXED64\<rparr>))
      | FieldType_SFIXED64 \<Rightarrow>
          returning JS_bigint (Reader_Fixed64 (r\<lparr>r_nextWireType := Some WireType_FIXED64\<rparr>))
      | FieldType_STRING \<Rightarrow> returning JS_string (Reader_String r)
      | FieldType_FIXED32 \<Rightarrow>
          returning JS_number (Reader_Fixed32 (r\<lparr>r_nextWireType := Some WireType_FIXED32\<rparr>))
      | FieldType_SFIXED32 \<Rightarrow>
          returning JS_number (Reader_Fixed32 (r\<lparr>r_nextWireType := Some WireType_FIXED32\<rparr>))
      | FieldType_BOOL \<Rightarrow>
          returning JS_boolean (Reader_Bool (r\<lparr>r_nextWireType := Some WireType_VARINT\<rparr>))
      | FieldType_ENUM \<Rightarrow>
          returning JS_number (Reader_Enum (r\<lparr>r_nextWireType := Some WireType_VARINT\<rparr>))
      | FieldType_SINT32 \<Rightarrow>
          returning JS_number (Reader_Sint32 (r\<lparr>r_nextWireType := Some WireType_VARINT\<rparr>))
      | FieldType_SINT64 \<Rightarrow>
          returning JS_bigint (Reader_Sint64 (r\<lparr>r_nextWireType := Some WireType_VARINT\<rparr>))
      | _ \<Rightarrow> Inl InvalidFieldType)"

definition Map_value :: "FieldType \<Rightarrow> deserializer option \<Rightarrow> BinaryReader \<Rightarrow> error + (jsvalue \<times> BinaryReader)" where
  "Map_value vFT msg r =
     (case vFT of
        FieldType_DOUBLE \<Rightarrow>
          returning JS_float (Reader_Double (r\<lparr>r_nextWireType := Some WireType_FIXED64\<rparr>))
      | FieldType_FLOAT \<Rightarrow>
          returning JS_float (Reader_Float (r\<lparr>r_nextWireType := Some WireType_FIXED32\<rparr>))
      | FieldType_INT64 \<Rightarrow> returning JS_bigint (Reader_Varint True r)
      | FieldType_UINT64 \<Rightarrow> returning JS_bigint (Reader_Varint False r)
      | FieldType_INT32 \<Rightarrow> returning JS_number (Reader_Varint32 r)
      | FieldType_UINT32 \<Rightarrow> returning JS_number (Reader_Varint32 r)
      | FieldType_FIXED64 \<Rightarrow>
          returning JS_bigint (Reader_Fixed64 (r\<lparr>r_nextWireType := Some WireType_FIXED64\<rparr>))
      | FieldType_SFIXED64 \<Rightarrow>
          returning JS_bigint (Reader_Fixed64 (r\<lparr>r_nextWireType := Some WireType_FIXED64\<rparr>))
      | FieldType_BOOL \<Rightarrow>
          returning JS_boolean (Reader_Bool (r\<lparr>r_nextWireType := Some WireType_VARINT\<rparr>))
      | FieldType_MESSAGE \<Rightarrow>
          (case msg of
             None \<Rightarrow> Inr (JS_undefined, r)
           | Some m \<Rightarrow>
               bindE (Reader_Varint32 r) (\<lambda>(u, r1).
               bindE (m r1) (\<lambda>r2. Inr (JS_message, r2))))
      | FieldType_BYTES \<Rightarrow> returning JS_bytes (Reader_Bytes r)
      | FieldType_STRING \<Rightarrow> returning JS_string (Reader_String r)
      | FieldType_ENUM \<Rightarrow>
          returning JS_number (Reader_Enum (r\<lparr>r_nextWireType := Some WireType_VARINT\<rparr>))
      | FieldType_FIXED32 \<Rightarrow>
          returning JS_number (Reader_Fixed32 (r\<lparr>r_nextWireType := Some WireType_FIXED32\<rparr>))
      | FieldType_SFIXED32 \<Rightarrow>
          returning JS_number (Reader_Fixed32 (r\<lparr>r_nextWireType := Some WireType_FIXED32\<rparr>))
      | FieldType_SINT32 \<Rightarrow>
          returning JS_number (Reader_Sint32 (r\<lparr>r_nextWireType := Some WireType_VARINT\<rparr>))
      | FieldType_SINT64 \<Rightarrow>
          returning JS_bigint (Reader_Sint64 (r\<lparr>r_nextWireType := Some WireType_VARINT\<rparr>))
      | _ \<Rightarrow> Inl InvalidFieldType)"

definition Reader_Map ::
  "FieldType \<Rightarrow> FieldType \<Rightarrow> deserializer option \<Rightarrow> BinaryReader
     \<Rightarrow> error + ((jsvalue \<times> jsvalue) \<times> BinaryReader)" where
  "Reader_Map kFT vFT msg r =
     (if r_nextWireType r = Some WireType_DELIMITED
      then (let oEnd = r_end r in
            bindE (Reader_Varint32 r) (\<lambda>(l, r1).
            let nEnd = r_cursor r1 + l in
            bindE (Reader_Varint32 (r1\<lparr>r_end := nEnd\<rparr>)) (\<lambda>(u, r2).
            bindE (Map_key kFT r2) (\<lambda>(k, r3).
            bindE (Reader_Varint32 r3) (\<lambda>(u', r4).
            bindE (Map_value vFT msg r4) (\<lambda>(v, r5).
            Inr ((k, v), r5\<lparr>r_end := oEnd, r_cursor := nEnd\<rparr>)))))))
      else Inl TypeNever)"

text \<open>\<open>new Uint8Array(numbers)\<close>: each number is reduced modulo 256.\<close>

definition Uint8Array_from :: "int list \<Rightarrow> 8 word list" where
  "Uint8Array_from xs = map word_of_int xs"

section \<open>Wire-format notions used to state the properties\<close>

text \<open>
  The value of a complete, well-terminated varint, in the words of the wire format: every
  element is an octet, every octet but the last has the continuation bit (\<open>0x80\<close>) set,
  the last has it clear, and the octets carry the value in groups of seven bits, least
  significant group first. \<open>None\<close> for any other sequence.
\<close>

fun varint_value :: "int list \<Rightarrow> int option" where
  "varint_value [] = None"
| "varint_value [b] = (if 0 \<le> b \<and> b < 128 then Some b else None)"
| "varint_value (b # c # bs) =
     (if 128 \<le> b \<and> b < 256
      then (case varint_value (c # bs) of
              None \<Rightarrow> None
            | Some v \<Rightarrow> Some ((b - 128) + 128 * v))
      else None)"



text \<open>
  The ten unrolled steps of the reader's \<open>Varint\<close> as a recursion: \<open>k\<close> steps remain
  after this one, \<open>i\<close> bytes are behind, \<open>v\<close> is the value so far. It is proved equal
  to the unrolled definition below (\<open>Reader_Varint_rolled\<close>) and used for induction.
\<close>

fun Varint_from :: "nat \<Rightarrow> nat \<Rightarrow> int \<Rightarrow> bool \<Rightarrow> BinaryReader \<Rightarrow> error + (int \<times> BinaryReader)" where
  "Varint_from 0 i v s r =
     bindE (BigInt_byte r (r_cursor r + int i)) (\<lambda>y.
       if y < 2 then advance_return r (int i + 1) (sign (v OR push_bit (7 * i) y) s)
       else Inl Overflow)"
| "Varint_from (Suc k) i v s r =
     bindE (BigInt_byte r (r_cursor r + int i)) (\<lambda>y.
       if y < 0x80 then advance_return r (int i + 1) (sign (v OR push_bit (7 * i) y) s)
       else Varint_from k (Suc i) ((v OR push_bit (7 * i) y) - push_bit (7 * i) 0x80) s r)"

text \<open>The bytes \<open>xs\<close> stand in the reader's input from position \<open>p\<close> on.\<close>

fun bytes_at :: "BinaryReader \<Rightarrow> int \<Rightarrow> int list \<Rightarrow> bool" where
  "bytes_at r p [] = True"
| "bytes_at r p (x # xs) = (byte_at r p = Some x \<and> bytes_at r (p + 1) xs)"

section \<open>Facts about the 32-bit operators and the varint encoder\<close>

lemma take_bit_or_push_bit:
  "take_bit k (x::int) OR push_bit k y = take_bit k x + push_bit k y"
  by (rule disjunctive_add [symmetric]) (auto simp: bit_take_bit_iff bit_push_bit_iff)



lemma and_127: "(x::int) AND 127 = x mod 128"
proof -
  have "take_bit 7 x = x AND mask 7" by (rule take_bit_eq_mask)
  then show ?thesis by (simp add: take_bit_eq_mod mask_eq_exp_minus_1)
qed


lemma or_128: "0 \<le> a \<Longrightarrow> a < 128 \<Longrightarrow> (a::int) OR 128 = a + 128"
proof -
  assume a: "0 \<le> a" "a < 128"
  have "take_bit 7 a = a" using a by (simp add: take_bit_int_eq_self)
  then show ?thesis using take_bit_or_push_bit [of 7 a 1] by simp
qed



















section \<open>The claims about the encoder and the writer\<close>

text \<open>
  C1. \<open>endDelimited\<close> splices the length of a delimited scope at the bookmark. For a
  payload of more than 127 bytes the loop collects the continuation bytes of the length
  and the method splices them and returns; the last byte of the varint, the one with the
  continuation bit clear, is never written. At a scope of field 1 holding 128 payload
  bytes the buffer gets the single length byte \<open>0x80\<close>, where the encoder's own
  \<open>UnsignedVarint32\<close> writes 128 as \<open>0x80 0x01\<close>.
\<close>

theorem C1_endDelimited_omits_last_length_byte:
  "Writer_beginDelimited [] 1 = Inr ([10], 1)
   \<and> Writer_endDelimited (Writer_appendUint8Array [10] (replicate 128 0)) 1
       = [10, 128] @ replicate 128 0
   \<and> varint_value [128] = None
   \<and> Encoder_UnsignedVarint32 [] 128 = [128, 1]"
  by code_simp

text \<open>
  C2. The encoder's \<open>Bytes\<close> appends nothing: whatever the input, the encoder's buffer
  is the one it was before the call. On the input \<open>[1, 2, 3]\<close> the buffer stays empty,
  while the writer's \<open>appendUint8Array\<close> appends the three bytes.
\<close>

theorem C2_Bytes_appends_nothing:
  "fst (Encoder_Bytes [] [1, 2, 3]) = []
   \<and> Writer_appendUint8Array [] [1, 2, 3] = [1, 2, 3]"
  by (simp add: Encoder_Bytes_def Writer_appendUint8Array_def)

text \<open>
  C4. For the negative input \<open>-1\<close> the encoder's \<open>Varint32\<close> appends six elements, not
  ten, and the fifth is the number \<open>-1\<close>, which is not an octet. The 64-bit \<open>Varint\<close>
  runs its loop nine times and appends the ten bytes of the sign extension.
\<close>

theorem C4_Varint32_negative_six_elements:
  "Encoder_Varint32 [] (- 1) = [255, 255, 255, 255, - 1, 1]
   \<and> Encoder_Varint [] (- 1) = [255, 255, 255, 255, 255, 255, 255, 255, 255, 1]"
  by code_simp

text \<open>
  C7. The writer's \<open>Sint64\<close> at the out-of-range value \<open>2^63\<close> returns normally with
  the buffer unchanged: it neither writes nor raises. \<open>Int64\<close>, with the same range test,
  raises there.
\<close>

theorem C7_Sint64_out_of_range_silent:
  "Writer_Sint64 [] 1 (2 ^ 63) = Inr []
   \<and> Writer_Int64 [] 1 (2 ^ 63) = Inl OutOfRange"
  by (simp add: Writer_Sint64_def Writer_Int64_def TWO_TO_63_def)




section \<open>Facts about the reader\<close>





lemma byte_at_cursor_update [simp]: "byte_at (r\<lparr>r_cursor := c\<rparr>) i = byte_at r i"
  by (simp add: byte_at_def)








lemma add_num_Num: "add_num x (Num b) = (case x of Num a \<Rightarrow> Num (a + b) | NaN \<Rightarrow> NaN)"
  by (simp add: add_num_def split: jsnum.splits)


lemma nine: "(9::nat) = Suc (Suc (Suc (Suc (Suc (Suc (Suc (Suc (Suc 0))))))))"
  by simp

lemma Reader_Varint_rolled: "Reader_Varint s r = Varint_from 9 0 0 s r"
  unfolding nine Reader_Varint_def Let_def Varint_from.simps
  by (simp cong: if_cong)


lemma UV_le: "v \<le> 127 \<Longrightarrow> Encoder_UnsignedVarint buf v = buf @ [v]"
  by (subst Encoder_UnsignedVarint.simps) simp

lemma cont_byte64: "((v::int) AND 0x7f) OR 0x80 = v mod 128 + 128"
proof -
  have "0 \<le> v mod 128" "v mod 128 < 128" by simp_all
  then show ?thesis by (simp add: and_127 or_128)
qed

lemma UV_gt:
  "127 < v \<Longrightarrow> Encoder_UnsignedVarint buf v =
     Encoder_UnsignedVarint (buf @ [v mod 128 + 128]) (v div 128)"
  by (subst Encoder_UnsignedVarint.simps) (simp add: cont_byte64 drop_bit_eq_div)

lemma UV_append: "Encoder_UnsignedVarint buf v = buf @ Encoder_UnsignedVarint [] v"
proof (induction "nat v" arbitrary: v buf rule: less_induct)
  case less
  show ?case
  proof (cases "127 < v")
    case True
    let ?v' = "v div 128"
    let ?c = "v mod 128 + 128"
    have lt: "nat ?v' < nat v" using True by (simp add: int_div_less_self)
    have e1: "Encoder_UnsignedVarint (buf @ [?c]) ?v' = (buf @ [?c]) @ Encoder_UnsignedVarint [] ?v'"
      by (rule less [OF lt])
    have e2: "Encoder_UnsignedVarint [?c] ?v' = [?c] @ Encoder_UnsignedVarint [] ?v'"
      by (rule less [OF lt])
    have "Encoder_UnsignedVarint buf v = Encoder_UnsignedVarint (buf @ [?c]) ?v'"
      by (rule UV_gt [OF True])
    also have "\<dots> = buf @ Encoder_UnsignedVarint [?c] ?v'"
      by (simp only: e1 e2 append_assoc)
    also have "Encoder_UnsignedVarint [?c] ?v' = Encoder_UnsignedVarint [] v"
      using UV_gt [OF True, of "[]"] by simp
    finally show ?thesis .
  next
    case False
    then show ?thesis by (simp add: UV_le)
  qed
qed

lemma UV_Cons:
  "127 < v \<Longrightarrow> Encoder_UnsignedVarint [] v = (v mod 128 + 128) # Encoder_UnsignedVarint [] (v div 128)"
  using UV_gt [of v "[]"] UV_append [of "[v mod 128 + 128]" "v div 128"] by simp

lemma UV_octets:
  "0 \<le> v \<Longrightarrow> x \<in> set (Encoder_UnsignedVarint [] v) \<Longrightarrow> 0 \<le> x \<and> x < 256"
proof (induction "nat v" arbitrary: v rule: less_induct)
  case less
  show ?case
  proof (cases "127 < v")
    case True
    have lt: "nat (v div 128) < nat v" using True by (simp add: int_div_less_self)
    have nn: "0 \<le> v div 128" using less.prems(1) by (simp add: pos_imp_zdiv_nonneg_iff)
    have "x = v mod 128 + 128 \<or> x \<in> set (Encoder_UnsignedVarint [] (v div 128))"
      using less.prems(2) by (simp add: UV_Cons [OF True])
    then show ?thesis
    proof
      assume "x = v mod 128 + 128"
      moreover have "0 \<le> v mod 128" "v mod 128 < 128" by simp_all
      ultimately show ?thesis by simp
    next
      assume "x \<in> set (Encoder_UnsignedVarint [] (v div 128))"
      then show ?thesis by (rule less.hyps [OF lt nn])
    qed
  next
    case False
    then show ?thesis using less.prems by (simp add: UV_le)
  qed
qed

lemma or_push_bit_add:
  "0 \<le> v \<Longrightarrow> v < 2 ^ n \<Longrightarrow> (v::int) OR push_bit n y = v + y * 2 ^ n"
proof -
  assume "0 \<le> v" "v < 2 ^ n"
  then have "take_bit n v = v" by (simp add: take_bit_int_eq_self)
  then show ?thesis using take_bit_or_push_bit [of n v y] by (simp add: push_bit_eq_mult)
qed

lemma Varint_from_enc:
  assumes "0 \<le> m" and "m < 2 ^ (7 * k + 1)" and "0 \<le> v" and "v < 2 ^ (7 * i)"
    and "bytes_at r (r_cursor r + int i) (Encoder_UnsignedVarint [] m)"
    and "r_cursor r + int i + int (length (Encoder_UnsignedVarint [] m)) \<le> r_end r"
  shows "Varint_from k i v s r =
     Inr (sign (v + m * 2 ^ (7 * i)) s,
          r\<lparr>r_cursor := r_cursor r + int i + int (length (Encoder_UnsignedVarint [] m))\<rparr>)"
  using assms
proof (induction k arbitrary: i v m)
  case 0
  have m: "m \<le> 127" "m < 2" using "0.prems"(2) by simp_all
  have e: "Encoder_UnsignedVarint [] m = [m]" using m by (simp add: UV_le)
  have b: "byte_at r (r_cursor r + int i) = Some m" using "0.prems"(5) by (simp add: e)
  have a: "r_cursor r + (int i + 1) \<le> r_end r" using "0.prems"(6) by (simp add: e)
  show ?case using b a m "0.prems"(3,4)
    by (simp add: BigInt_byte_def bindE_def advance_return_def advance_def Let_def e
        or_push_bit_add add.assoc)
next
  case (Suc k)
  show ?case
  proof (cases "127 < m")
    case False
    then have m: "m \<le> 127" by simp
    have e: "Encoder_UnsignedVarint [] m = [m]" using m by (simp add: UV_le)
    have b: "byte_at r (r_cursor r + int i) = Some m" using Suc.prems(5) by (simp add: e)
    have a: "r_cursor r + (int i + 1) \<le> r_end r" using Suc.prems(6) by (simp add: e)
    show ?thesis using b a m Suc.prems(3,4)
      by (simp add: BigInt_byte_def bindE_def advance_return_def advance_def Let_def e
          or_push_bit_add add.assoc)
  next
    case True
    let ?y = "m mod 128 + 128"
    let ?m' = "m div 128"
    let ?v' = "v + (m mod 128) * 2 ^ (7 * i)"
    have e: "Encoder_UnsignedVarint [] m = ?y # Encoder_UnsignedVarint [] ?m'"
      by (rule UV_Cons [OF True])
    have b: "byte_at r (r_cursor r + int i) = Some ?y" using Suc.prems(5) by (simp add: e)
    have ny: "\<not> ?y < 128" by simp
    have o: "v OR push_bit (7 * i) ?y = v + ?y * 2 ^ (7 * i)"
      using Suc.prems(3,4) by (rule or_push_bit_add)
    have v': "(v OR push_bit (7 * i) ?y) - push_bit (7 * i) 128 = ?v'"
      unfolding o by (simp add: push_bit_eq_mult algebra_simps)
    have p1: "0 \<le> ?m'" using Suc.prems(1) by (simp add: pos_imp_zdiv_nonneg_iff)
    have "m < 128 * 2 ^ (7 * k + 1)" using Suc.prems(2) by (simp add: power_add)
    then have p2: "?m' < 2 ^ (7 * k + 1)" by (simp add: div_less_iff_less_mult)
    have p3: "0 \<le> ?v'" using Suc.prems(3) by simp
    have "(m mod 128) * 2 ^ (7 * i) \<le> 127 * 2 ^ (7 * i)"
      by (rule mult_right_mono) simp_all
    then have "?v' < 128 * 2 ^ (7 * i)" using Suc.prems(4) by linarith
    then have p4: "?v' < 2 ^ (7 * Suc i)" by (simp add: power_add)
    have p5: "bytes_at r (r_cursor r + int (Suc i)) (Encoder_UnsignedVarint [] ?m')"
      using Suc.prems(5) by (simp add: e ac_simps)
    have p6: "r_cursor r + int (Suc i) + int (length (Encoder_UnsignedVarint [] ?m')) \<le> r_end r"
      using Suc.prems(6) by (simp add: e)
    have ih: "Varint_from k (Suc i) ?v' s r =
      Inr (sign (?v' + ?m' * 2 ^ (7 * Suc i)) s,
           r\<lparr>r_cursor := r_cursor r + int (Suc i) + int (length (Encoder_UnsignedVarint [] ?m'))\<rparr>)"
      by (rule Suc.IH [OF p1 p2 p3 p4 p5 p6])
    have dm: "m mod 128 + 128 * ?m' = m" by simp
    have pw: "2 ^ (7 * Suc i) = 128 * (2::int) ^ (7 * i)" by (simp add: power_add)
    have gen: "(v + a * X) + q * (128 * X) = v + (a + 128 * q) * X" for a q X :: int
      by (simp add: algebra_simps)
    have val: "?v' + ?m' * 2 ^ (7 * Suc i) = v + m * 2 ^ (7 * i)"
      using gen [of "m mod 128" "2 ^ (7 * i)" ?m'] by (simp only: dm pw)
    have cur: "r_cursor r + int (Suc i) + int (length (Encoder_UnsignedVarint [] ?m'))
        = r_cursor r + int i + int (length (Encoder_UnsignedVarint [] m))"
      by (simp add: e)
    have step: "Varint_from (Suc k) i v s r = Varint_from k (Suc i) ?v' s r"
      using b ny v' by (simp add: BigInt_byte_def bindE_def)
    show ?thesis by (simp only: step ih val cur)
  qed
qed


lemma bytes_at_Uint8Array:
  "(\<And>x. x \<in> set xs \<Longrightarrow> 0 \<le> x \<and> x < 256) \<Longrightarrow>
   r_bytes r = Uint8Array_from (pre @ xs) \<Longrightarrow> bytes_at r (int (length pre)) xs"
proof (induction xs arbitrary: pre)
  case Nil
  show ?case by simp
next
  case (Cons x xs)
  have x: "0 \<le> x" "x < 256" using Cons.prems(1) [of x] by simp_all
  have "uint (word_of_int x :: 8 word) = x"
    using x by (simp add: uint_word_of_int mod_pos_pos_trivial)
  then have b: "byte_at r (int (length pre)) = Some x"
    using Cons.prems(2) by (simp add: byte_at_def Uint8Array_from_def nth_append)
  have "bytes_at r (int (length (pre @ [x]))) xs"
    by (rule Cons.IH) (use Cons.prems in simp_all)
  then show ?case using b by (simp add: ac_simps)
qed

lemma bindE_Inr_iff: "bindE m f = Inr y \<longleftrightarrow> (\<exists>x. m = Inr x \<and> f x = Inr y)"
  by (cases m) (simp_all add: bindE_def)

lemma advance_Inr_iff:
  "advance r n = Inr r' \<longleftrightarrow> r_cursor r + n \<le> r_end r \<and> r' = r\<lparr>r_cursor := r_cursor r + n\<rparr>"
  by (auto simp: advance_def Let_def)

lemma advance_return_Inr_iff:
  "advance_return r n x = Inr (y, r') \<longleftrightarrow>
     r_cursor r + n \<le> r_end r \<and> y = x \<and> r' = r\<lparr>r_cursor := r_cursor r + n\<rparr>"
  by (auto simp: advance_return_def bindE_Inr_iff advance_Inr_iff)

lemma skip_continuation_end:
  "skip_continuation n r = (b, r') \<Longrightarrow> r_end r' = r_end r"
  by (induction n arbitrary: r) (auto simp: Let_def split: if_splits)

lemma Varint32_end: "Reader_Varint32 r = Inr (x, r') \<Longrightarrow> r_end r' = r_end r"
  by (auto simp: Reader_Varint32_def Let_def advance_return_Inr_iff bindE_Inr_iff advance_Inr_iff
      dest: skip_continuation_end split: if_splits prod.splits)

lemma Message_iff:
  "Reader_Message message r = Inr r' \<longleftrightarrow>
     r_nextWireType r = Some WireType_DELIMITED \<and>
     (\<exists>L r1 r2. Reader_Varint32 r = Inr (L, r1)
        \<and> message (r1\<lparr>r_end := r_cursor r1 + L\<rparr>) = Inr r2
        \<and> r' = r2\<lparr>r_cursor := r_cursor r1 + L, r_end := r_end r\<rparr>)"
  by (auto simp: Reader_Message_def Let_def bindE_Inr_iff)

lemma Map_iff:
  "Reader_Map kFT vFT msg r = Inr (kv, r') \<longleftrightarrow>
     r_nextWireType r = Some WireType_DELIMITED \<and>
     (\<exists>L r1 u r2 k r3 u' r4 v r5.
        Reader_Varint32 r = Inr (L, r1)
        \<and> Reader_Varint32 (r1\<lparr>r_end := r_cursor r1 + L\<rparr>) = Inr (u, r2)
        \<and> Map_key kFT r2 = Inr (k, r3)
        \<and> Reader_Varint32 r3 = Inr (u', r4)
        \<and> Map_value vFT msg r4 = Inr (v, r5)
        \<and> kv = (k, v)
        \<and> r' = r5\<lparr>r_end := r_end r, r_cursor := r_cursor r1 + L\<rparr>)"
  by (auto simp: Reader_Map_def Let_def bindE_Inr_iff)


lemma BigInt_byte_Inr_iff: "BigInt_byte r i = Inr y \<longleftrightarrow> byte_at r i = Some y"
  by (simp add: BigInt_byte_def split: option.splits)

lemma Varint_from_end:
  "Varint_from k i v s r = Inr (x, r') \<Longrightarrow> r_end r' = r_end r"
proof (induction k arbitrary: i v)
  case 0
  then show ?case
    by (auto simp: bindE_Inr_iff advance_return_Inr_iff split: if_splits)
next
  case (Suc k)
  then show ?case
    by (auto simp: bindE_Inr_iff advance_return_Inr_iff split: if_splits)
qed

lemma Varint_end: "Reader_Varint s r = Inr (x, r') \<Longrightarrow> r_end r' = r_end r"
  unfolding Reader_Varint_rolled by (rule Varint_from_end)

lemma returning_Inr_iff:
  "returning f m = Inr (v, r') \<longleftrightarrow> (\<exists>x. m = Inr (x, r') \<and> v = f x)"
  by (auto simp: returning_def bindE_Inr_iff)

lemma Fixed32_end: "Reader_Fixed32 r = Inr (x, r') \<Longrightarrow> r_end r' = r_end r"
  by (auto simp: Reader_Fixed32_def advance_return_Inr_iff split: if_splits)

lemma Fixed64_end: "Reader_Fixed64 r = Inr (x, r') \<Longrightarrow> r_end r' = r_end r"
  by (auto simp: Reader_Fixed64_def Let_def bindE_Inr_iff advance_Inr_iff split: if_splits)

lemma Bool_end: "Reader_Bool r = Inr (x, r') \<Longrightarrow> r_end r' = r_end r"
  by (auto simp: Reader_Bool_def split: if_splits)

lemma Enum_end: "Reader_Enum r = Inr (x, r') \<Longrightarrow> r_end r' = r_end r"
  by (auto simp: Reader_Enum_def dest: Varint32_end split: if_splits)

lemma Sint32_end: "Reader_Sint32 r = Inr (x, r') \<Longrightarrow> r_end r' = r_end r"
  by (auto simp: Reader_Sint32_def bindE_Inr_iff dest: Varint32_end split: if_splits)

lemma Sint64_end: "Reader_Sint64 r = Inr (x, r') \<Longrightarrow> r_end r' = r_end r"
  by (auto simp: Reader_Sint64_def bindE_Inr_iff dest: Varint_end split: if_splits)

lemma String_end: "Reader_String r = Inr (x, r') \<Longrightarrow> r_end r' = r_end r"
  by (auto simp: Reader_String_def Let_def bindE_Inr_iff dest: Varint32_end split: if_splits prod.splits)

lemma Map_key_end: "Map_key kFT r = Inr (k, r') \<Longrightarrow> r_end r' = r_end r"
  by (cases kFT)
     (auto simp: Map_key_def returning_Inr_iff
       dest: Varint_end Varint32_end Fixed32_end Fixed64_end Bool_end Enum_end Sint32_end
             Sint64_end String_end)




section \<open>The claims about the reader\<close>

text \<open>
  C3. \<open>NextField\<close> rejects a tag only when its wire type is 3 (START_GROUP): the last
  operand of the test compares the type with \<open>(START_GROUP || END_GROUP)\<close>, which is 3.
  After the envelope \<open>00 00 00 00 01\<close> the tag byte \<open>0x0C\<close> (field 1, wire type 4,
  END_GROUP) is accepted and stored, and so is \<open>0x0E\<close> (wire type 6); only \<open>0x0B\<close>
  (wire type 3) throws.
\<close>

theorem C3_NextField_accepts_END_GROUP:
  "Reader_Header (new_BinaryReader [0, 0, 0, 0, 1, 12]) =
     Inr (True, \<lparr>r_bytes = [0, 0, 0, 0, 1, 12], r_end = 6, r_cursor = 5, r_nextField = None,
                  r_nextWireType = None, r_length = Num 6\<rparr>)
   \<and> Reader_NextField \<lparr>r_bytes = [0, 0, 0, 0, 1, 12], r_end = 6, r_cursor = 5,
         r_nextField = None, r_nextWireType = None, r_length = Num 6\<rparr> =
     Inr (True, \<lparr>r_bytes = [0, 0, 0, 0, 1, 12], r_end = 6, r_cursor = 6, r_nextField = Some 1,
                  r_nextWireType = Some WireType_END_GROUP, r_length = Num 6\<rparr>)
   \<and> Reader_NextField \<lparr>r_bytes = [0, 0, 0, 0, 1, 14], r_end = 6, r_cursor = 5,
         r_nextField = None, r_nextWireType = None, r_length = Num 6\<rparr> =
     Inr (True, \<lparr>r_bytes = [0, 0, 0, 0, 1, 14], r_end = 6, r_cursor = 6, r_nextField = Some 1,
                  r_nextWireType = Some 6, r_length = Num 6\<rparr>)
   \<and> Reader_NextField \<lparr>r_bytes = [0, 0, 0, 0, 1, 11], r_end = 6, r_cursor = 5,
         r_nextField = None, r_nextWireType = None, r_length = Num 6\<rparr> =
     Inl InvalidWireType"
  by code_simp

text \<open>
  C5. \<open>Bool\<close> moves the cursor with \<open>++\<close> and never compares it with \<open>end\<close>. After
  the envelope \<open>00 00 00 00 01\<close> and the tag \<open>0x08\<close> (field 1, VARINT) the cursor is at
  the end of the input, 6; \<open>Bool\<close> succeeds there, returns \<open>false\<close> and leaves the cursor
  at 7, beyond \<open>end = 6\<close>. \<open>Enum\<close>, which goes through \<open>advance\<close>, throws in the same state.
\<close>

theorem C5_Bool_leaves_cursor_past_end:
  "Reader_Header (new_BinaryReader [0, 0, 0, 0, 1, 8]) =
     Inr (True, \<lparr>r_bytes = [0, 0, 0, 0, 1, 8], r_end = 6, r_cursor = 5, r_nextField = None,
                  r_nextWireType = None, r_length = Num 6\<rparr>)
   \<and> Reader_NextField \<lparr>r_bytes = [0, 0, 0, 0, 1, 8], r_end = 6, r_cursor = 5,
         r_nextField = None, r_nextWireType = None, r_length = Num 6\<rparr> =
     Inr (True, \<lparr>r_bytes = [0, 0, 0, 0, 1, 8], r_end = 6, r_cursor = 6, r_nextField = Some 1,
                  r_nextWireType = Some WireType_VARINT, r_length = Num 6\<rparr>)
   \<and> Reader_Bool \<lparr>r_bytes = [0, 0, 0, 0, 1, 8], r_end = 6, r_cursor = 6,
         r_nextField = Some 1, r_nextWireType = Some WireType_VARINT, r_length = Num 6\<rparr> =
     Inr (False, \<lparr>r_bytes = [0, 0, 0, 0, 1, 8], r_end = 6, r_cursor = 7, r_nextField = Some 1,
                   r_nextWireType = Some WireType_VARINT, r_length = Num 6\<rparr>)
   \<and> Reader_Enum \<lparr>r_bytes = [0, 0, 0, 0, 1, 8], r_end = 6, r_cursor = 6,
         r_nextField = Some 1, r_nextWireType = Some WireType_VARINT, r_length = Num 6\<rparr> =
     Inl AdvanceOutOfBounds"
  by code_simp




text \<open>
  C8. For every \<open>n\<close> with \<open>0 \<le> n < 2^64\<close>: the bytes that the encoder's
  \<open>UnsignedVarint\<close> writes for \<open>n\<close>, given to a new reader as a \<open>Uint8Array\<close>, are
  decoded by \<open>Varint(false)\<close> without an error, the result is \<open>n\<close>, and the cursor ends
  right after the encoding.
\<close>

theorem C8_UnsignedVarint_roundtrip:
  assumes "0 \<le> n" and "n < 2 ^ 64"
  shows "Reader_Varint False (new_BinaryReader (Uint8Array_from (Encoder_UnsignedVarint [] n)))
       = Inr (n, (new_BinaryReader (Uint8Array_from (Encoder_UnsignedVarint [] n)))
                   \<lparr>r_cursor := int (length (Encoder_UnsignedVarint [] n))\<rparr>)"
proof -
  let ?enc = "Encoder_UnsignedVarint [] n"
  let ?r = "new_BinaryReader (Uint8Array_from ?enc)"
  have c: "r_cursor ?r = 0" "r_end ?r = int (length ?enc)" "r_bytes ?r = Uint8Array_from ([] @ ?enc)"
    by (simp_all add: new_BinaryReader_def Uint8Array_from_def)
  have "bytes_at ?r (int (length ([]::int list))) ?enc"
    using UV_octets [OF assms(1)] c(3) by (rule bytes_at_Uint8Array)
  then have b: "bytes_at ?r (r_cursor ?r + int 0) ?enc" by (simp add: c(1))
  have e: "r_cursor ?r + int 0 + int (length ?enc) \<le> r_end ?r" by (simp add: c)
  have m: "n < 2 ^ (7 * 9 + 1)" using assms(2) by simp
  have "Varint_from 9 0 0 False ?r =
      Inr (sign (0 + n * 2 ^ (7 * 0)) False, ?r\<lparr>r_cursor := r_cursor ?r + int 0 + int (length ?enc)\<rparr>)"
    using assms(1) m _ _ b e by (rule Varint_from_enc) simp_all
  moreover have "sign n False = n" using assms by (simp add: sign_def mod_pos_pos_trivial)
  ultimately show ?thesis by (simp add: Reader_Varint_rolled c(1))
qed

theorem C8_roundtrip_witness:
  "(0::int) \<le> 300 \<and> (300::int) < 2 ^ 64
   \<and> Encoder_UnsignedVarint [] 300 = [172, 2]
   \<and> Reader_Varint False (new_BinaryReader [172, 2]) =
       Inr (300, (new_BinaryReader [172, 2])\<lparr>r_cursor := 2\<rparr>)"
proof -
  have e: "Encoder_UnsignedVarint [] 300 = [172, 2]" by code_simp
  show ?thesis using C8_UnsignedVarint_roundtrip [of 300]
    by (simp add: e Uint8Array_from_def)
qed


text \<open>
  C9. \<open>Message\<close> returns normally exactly when the wire type is DELIMITED, the length
  varint \<open>L\<close> is read (leaving the cursor at \<open>c\<close>) and the embedded deserializer,
  started in the state whose \<open>end\<close> is \<open>c + L\<close>, returns normally; the state it then
  leaves has the cursor at \<open>c + L\<close> and the \<open>end\<close> of before the call, wherever the
  deserializer stopped. \<open>Map\<close> likewise: its reads run with \<open>end = c + L\<close> (the key
  tag, the key and the value tag leave \<open>end\<close> at that value), and when it returns the
  cursor is \<open>c + L\<close> and \<open>end\<close> is restored.
\<close>

theorem C9_Message_Map_restore_end:
  "(Reader_Message message r = Inr r' \<longleftrightarrow>
      r_nextWireType r = Some WireType_DELIMITED \<and>
      (\<exists>L r1 r2. Reader_Varint32 r = Inr (L, r1)
         \<and> message (r1\<lparr>r_end := r_cursor r1 + L\<rparr>) = Inr r2
         \<and> r' = r2\<lparr>r_cursor := r_cursor r1 + L, r_end := r_end r\<rparr>
         \<and> r_cursor r' = r_cursor r1 + L \<and> r_end r' = r_end r))
   \<and> (Reader_Map kFT vFT msg r = Inr (kv, r'') \<longleftrightarrow>
      r_nextWireType r = Some WireType_DELIMITED \<and>
      (\<exists>L r1 u r2 k r3 u' r4 v r5.
         Reader_Varint32 r = Inr (L, r1)
         \<and> Reader_Varint32 (r1\<lparr>r_end := r_cursor r1 + L\<rparr>) = Inr (u, r2)
         \<and> Map_key kFT r2 = Inr (k, r3)
         \<and> Reader_Varint32 r3 = Inr (u', r4)
         \<and> Map_value vFT msg r4 = Inr (v, r5)
         \<and> r_end r2 = r_cursor r1 + L \<and> r_end r3 = r_cursor r1 + L
         \<and> r_end r4 = r_cursor r1 + L
         \<and> kv = (k, v)
         \<and> r'' = r5\<lparr>r_end := r_end r, r_cursor := r_cursor r1 + L\<rparr>
         \<and> r_cursor r'' = r_cursor r1 + L \<and> r_end r'' = r_end r))"
  (is "(?MsgL \<longleftrightarrow> ?MsgR) \<and> (?MapL \<longleftrightarrow> ?MapR)")
proof (rule conjI; rule iffI)
  assume ?MsgL
  then obtain L r1 r2 where h: "r_nextWireType r = Some WireType_DELIMITED"
      "Reader_Varint32 r = Inr (L, r1)"
      "message (r1\<lparr>r_end := r_cursor r1 + L\<rparr>) = Inr r2"
      "r' = r2\<lparr>r_cursor := r_cursor r1 + L, r_end := r_end r\<rparr>"
    unfolding Message_iff by blast
  have c: "r_cursor r' = r_cursor r1 + L" "r_end r' = r_end r" using h(4) by simp_all
  show ?MsgR using h c by blast
next
  assume ?MsgR
  then show ?MsgL unfolding Message_iff by blast
next
  assume ?MapL
  then obtain L r1 u r2 k r3 u' r4 v r5 where h: "r_nextWireType r = Some WireType_DELIMITED"
      "Reader_Varint32 r = Inr (L, r1)"
      "Reader_Varint32 (r1\<lparr>r_end := r_cursor r1 + L\<rparr>) = Inr (u, r2)"
      "Map_key kFT r2 = Inr (k, r3)"
      "Reader_Varint32 r3 = Inr (u', r4)"
      "Map_value vFT msg r4 = Inr (v, r5)"
      "kv = (k, v)"
      "r'' = r5\<lparr>r_end := r_end r, r_cursor := r_cursor r1 + L\<rparr>"
    unfolding Map_iff by blast
  have e2: "r_end r2 = r_cursor r1 + L" using Varint32_end [OF h(3)] by simp
  have e3: "r_end r3 = r_cursor r1 + L" using Map_key_end [OF h(4)] e2 by simp
  have e4: "r_end r4 = r_cursor r1 + L" using Varint32_end [OF h(5)] e3 by simp
  have c: "r_cursor r'' = r_cursor r1 + L" "r_end r'' = r_end r" using h(8) by simp_all
  show ?MapR using h e2 e3 e4 c by blast
next
  assume ?MapR
  then show ?MapL unfolding Map_iff by blast
qed


text \<open>
  An entry of declared length 5 whose key and value take 4 bytes: both calls end with
  the cursor at \<open>1 + 5\<close> and \<open>end\<close> back at 9.
\<close>

theorem C9_Message_Map_witness:
  "Reader_Message Inr
      \<lparr>r_bytes = [5, 8, 1, 16, 2, 0, 1, 2, 3], r_end = 9, r_cursor = 0, r_nextField = Some 3, r_nextWireType = Some WireType_DELIMITED, r_length = Num 14\<rparr> = Inr
      \<lparr>r_bytes = [5, 8, 1, 16, 2, 0, 1, 2, 3], r_end = 9, r_cursor = 6, r_nextField = Some 3, r_nextWireType = Some WireType_DELIMITED, r_length = Num 14\<rparr>
   \<and> Reader_Map FieldType_INT32 FieldType_INT32 None
      \<lparr>r_bytes = [5, 8, 1, 16, 2, 0, 1, 2, 3], r_end = 9, r_cursor = 0, r_nextField = Some 3, r_nextWireType = Some WireType_DELIMITED, r_length = Num 14\<rparr> = Inr ((JS_number 1, JS_number 2),
      \<lparr>r_bytes = [5, 8, 1, 16, 2, 0, 1, 2, 3], r_end = 9, r_cursor = 6, r_nextField = Some 3, r_nextWireType = Some WireType_DELIMITED, r_length = Num 14\<rparr>)
   \<and> (\<exists>L r1. Reader_Varint32
      \<lparr>r_bytes = [5, 8, 1, 16, 2, 0, 1, 2, 3], r_end = 9, r_cursor = 0, r_nextField = Some 3, r_nextWireType = Some WireType_DELIMITED, r_length = Num 14\<rparr> = Inr (L, r1) \<and> r_cursor r1 + L = 6)"
proof -
  let ?r0 = "\<lparr>r_bytes = [5, 8, 1, 16, 2, 0, 1, 2, 3], r_end = 9, r_cursor = 0, r_nextField = Some 3, r_nextWireType = Some WireType_DELIMITED, r_length = Num 14\<rparr>"
  let ?r1 = "\<lparr>r_bytes = [5, 8, 1, 16, 2, 0, 1, 2, 3], r_end = 9, r_cursor = 6, r_nextField = Some 3, r_nextWireType = Some WireType_DELIMITED, r_length = Num 14\<rparr>"
  have m: "Reader_Message Inr ?r0 = Inr ?r1" by code_simp
  have p: "Reader_Map FieldType_INT32 FieldType_INT32 None ?r0 = Inr ((JS_number 1, JS_number 2), ?r1)"
    by code_simp
  have "\<exists>L r1 r2. Reader_Varint32 ?r0 = Inr (L, r1)
         \<and> Inr (r1\<lparr>r_end := r_cursor r1 + L\<rparr>) = Inr r2
         \<and> ?r1 = r2\<lparr>r_cursor := r_cursor r1 + L, r_end := r_end ?r0\<rparr>
         \<and> r_cursor ?r1 = r_cursor r1 + L \<and> r_end ?r1 = r_end ?r0"
    using C9_Message_Map_restore_end [of Inr ?r0 ?r1, THEN conjunct1, THEN iffD1, OF m] by blast
  then have "\<exists>L r1. Reader_Varint32 ?r0 = Inr (L, r1) \<and> r_cursor r1 + L = 6" by auto
  then show ?thesis using m p by blast
qed


end
